theory Spec2Isabelle
  imports Complex_Main "HOL-Library.Monad_Syntax"
begin

section \<open>Data model of the drag-gesture recognizer (ucdraggesture.cpp)\<close>

text \<open>
  The recognizer is the class \<open>UCDragGesturePrivate\<close>. Its numbers of type \<open>qreal\<close>
  are modelled as \<open>real\<close> (rounding of IEEE doubles is not part of the model), its
  \<open>int\<close> and \<open>qint64\<close> values as \<open>int\<close> (no computation here comes near their
  range). \<open>Q_ASSERT\<close> is modelled as a failure: a function that hits a violated
  assertion returns \<open>None\<close>.
\<close>

datatype Direction = Rightwards | Leftwards | Downwards | Upwards | Horizontal | Vertical

datatype Status = WaitingForTouch | Undecided | Recognized

datatype TouchPointState =
  TouchPointPressed | TouchPointMoved | TouchPointStationary | TouchPointReleased

text \<open>\<open>QPointF\<close>: a pair of coordinates, \<open>fst\<close> is \<open>x()\<close> and \<open>snd\<close> is \<open>y()\<close>.\<close>

type_synonym QPointF = "real \<times> real"

record TouchPoint =
  tp_id :: int
  tp_state :: TouchPointState
  tp_pos :: QPointF
  tp_scenePos :: QPointF

text \<open>
  \<open>QTouchEvent\<close>: the list of touch points. \<open>touchPointStates()\<close> is the union of
  the states of the points, so \<open>testFlag s\<close> holds when some point is in state \<open>s\<close>.
\<close>

type_synonym QTouchEvent = "TouchPoint list"

definition testFlag :: "QTouchEvent \<Rightarrow> TouchPointState \<Rightarrow> bool" where
  "testFlag event st = (st \<in> set (map tp_state event))"

subsection \<open>Class Direction\<close>

definition isHorizontal :: "Direction \<Rightarrow> bool" where
  "isHorizontal type = (type = Leftwards \<or> type = Rightwards \<or> type = Horizontal)"

definition isVertical :: "Direction \<Rightarrow> bool" where
  "isVertical type = (type = Upwards \<or> type = Downwards \<or> type = Vertical)"

definition isPositive :: "Direction \<Rightarrow> bool" where
  "isPositive type =
     (type = Rightwards \<or> type = Downwards \<or> type = Horizontal \<or> type = Vertical)"

subsection \<open>The pool of active touches\<close>

record ActiveTouchInfo =
  ati_id :: int
  startTime :: int

text \<open>
  Modelled from the spec: \<open>Pool<ActiveTouchInfo>\<close> (Pool.h is not among the sources).
  The spec describes a fixed-capacity pool, an array of slots with explicit slot reuse;
  \<open>addTouchPoint\<close> fails silently when the pool is exhausted. A slot is \<open>None\<close> when
  free; the capacity is the length of the list. \<open>forEach\<close> visits the used slots in
  index order.
\<close>

type_synonym 'a Pool = "'a option list"

definition Pool_items :: "'a Pool \<Rightarrow> 'a list" where
  "Pool_items p = List.map_filter id p"

definition Pool_isEmpty :: "'a Pool \<Rightarrow> bool" where
  "Pool_isEmpty p = (Pool_items p = [])"

fun getEmptySlot :: "'a \<Rightarrow> 'a Pool \<Rightarrow> 'a Pool" where
  "getEmptySlot a [] = []"
| "getEmptySlot a (None # ss) = Some a # ss"
| "getEmptySlot a (Some b # ss) = Some b # getEmptySlot a ss"

text \<open>
  \<open>freeFirst P\<close> is the \<open>forEach\<close> of \<open>removeTouchPoint\<close>: it frees the first used slot
  that satisfies \<open>P\<close> and stops there (the lambda returns false).
\<close>

fun freeFirst :: "('a \<Rightarrow> bool) \<Rightarrow> 'a Pool \<Rightarrow> 'a Pool" where
  "freeFirst P [] = []"
| "freeFirst P (None # ss) = None # freeFirst P ss"
| "freeFirst P (Some b # ss) = (if P b then None # ss else Some b # freeFirst P ss)"

subsection \<open>ActiveTouchesInfo\<close>

text \<open>The time source is an input: \<open>now\<close> is \<open>m_timeSource->msecsSinceReference()\<close>.\<close>

definition addTouchPoint :: "int \<Rightarrow> int \<Rightarrow> ActiveTouchInfo Pool \<Rightarrow> ActiveTouchInfo Pool" where
  "addTouchPoint now touchId p = getEmptySlot \<lparr>ati_id = touchId, startTime = now\<rparr> p"

definition removeTouchPoint :: "int \<Rightarrow> ActiveTouchInfo Pool \<Rightarrow> ActiveTouchInfo Pool" where
  "removeTouchPoint touchId p = freeFirst (\<lambda>touchInfo. touchId = ati_id touchInfo) p"

text \<open>
  \<open>touchStartTime\<close>: the start time of the first record with the id; the result starts
  as -1 and \<open>Q_ASSERT(result != -1)\<close> fails when nothing else was found.
\<close>

definition touchStartTime :: "int \<Rightarrow> ActiveTouchInfo Pool \<Rightarrow> int option" where
  "touchStartTime touchId p =
     (let result = (case filter (\<lambda>touchInfo. touchId = ati_id touchInfo) (Pool_items p) of
                      [] \<Rightarrow> -1
                    | touchInfo # _ \<Rightarrow> startTime touchInfo)
      in if result \<noteq> -1 then Some result else None)"

text \<open>
  \<open>mostRecentStartTime\<close>: \<open>Q_ASSERT(!m_touchInfoPool.isEmpty())\<close>, then the loop that
  starts from -1 and keeps every start time that is greater.
\<close>

definition highestStartTime :: "ActiveTouchInfo list \<Rightarrow> int \<Rightarrow> int" where
  "highestStartTime infos h0 =
     fold (\<lambda>activeTouchInfo h. if startTime activeTouchInfo > h then startTime activeTouchInfo else h)
          infos h0"

definition mostRecentStartTime :: "ActiveTouchInfo Pool \<Rightarrow> int option" where
  "mostRecentStartTime p =
     (if Pool_isEmpty p then None else Some (highestStartTime (Pool_items p) (-1)))"

fun update_points :: "int \<Rightarrow> TouchPoint list \<Rightarrow> ActiveTouchInfo Pool \<Rightarrow> ActiveTouchInfo Pool" where
  "update_points now [] p = p"
| "update_points now (touchPoint # rest) p =
     update_points now rest
       (if tp_state touchPoint = TouchPointPressed then addTouchPoint now (tp_id touchPoint) p
        else if tp_state touchPoint = TouchPointReleased then removeTouchPoint (tp_id touchPoint) p
        else p)"

definition ActiveTouchesInfo_update ::
  "int \<Rightarrow> QTouchEvent \<Rightarrow> ActiveTouchInfo Pool \<Rightarrow> ActiveTouchInfo Pool" where
  "ActiveTouchesInfo_update now event p =
     (if \<not> (testFlag event TouchPointPressed \<or> testFlag event TouchPointReleased) then p
      else update_points now event p)"

subsection \<open>Damped scene position\<close>

text \<open>
  Modelled from the spec: \<open>DampedPointF\<close> (Damper.h is not among the sources). The spec:
  \<open>reset(value)\<close> sets current = value with no smoothing; \<open>update(raw)\<close> moves current
  toward raw by at most \<open>maxDelta\<close> per call (clamped linear interpolation);
  \<open>setMaxDelta(d)\<close> reconfigures the clamp. Each coordinate is damped on its own.
\<close>

record DampedPointF =
  dp_value :: QPointF
  dp_maxDelta :: real

definition damp :: "real \<Rightarrow> real \<Rightarrow> real \<Rightarrow> real" where
  "damp maxDelta current raw =
     (if raw - current > maxDelta then current + maxDelta
      else if current - raw > maxDelta then current - maxDelta
      else raw)"

definition DampedPointF_reset :: "QPointF \<Rightarrow> DampedPointF \<Rightarrow> DampedPointF" where
  "DampedPointF_reset point dp = dp\<lparr>dp_value := point\<rparr>"

definition DampedPointF_update :: "QPointF \<Rightarrow> DampedPointF \<Rightarrow> DampedPointF" where
  "DampedPointF_update raw dp =
     dp\<lparr>dp_value := (damp (dp_maxDelta dp) (fst (dp_value dp)) (fst raw),
                      damp (dp_maxDelta dp) (snd (dp_value dp)) (snd raw))\<rparr>"

definition setMaxDelta :: "real \<Rightarrow> DampedPointF \<Rightarrow> DampedPointF" where
  "setMaxDelta delta dp = dp\<lparr>dp_maxDelta := delta\<rparr>"

subsection \<open>The touch ownership broker\<close>

text \<open>
  \<open>TouchOwnershipEvent\<close>: the touch id and whether ownership was gained (otherwise it
  was lost).
\<close>

datatype TouchOwnershipEvent = TouchOwnershipEvent (ev_touchId: int) (gained: bool)

text \<open>
  Modelled from the spec: class \<open>TouchRegistry\<close> (TouchRegistry.h and its implementation
  are not among the sources). Recognizers are named by a number (the item pointer
  \<open>q\<close>). The spec gives the broker a candidate set per touch id (an ordered
  collection), an ownership map from touch id to the owning recognizer with at most one
  entry per touch id (absence means unowned), and lifecycle watchers. The ownership map
  is kept as the list of its entries in the order of the grants, and \<open>ownerOf\<close> reads
  it. \<open>requestTouchOwnership\<close>: the first requester wins. A touch without an owner is
  granted immediately to the requester: an ownership-gained notification goes to it
  and an ownership-lost notification to any other recognizer that still held partial
  ownership state for the same identifier, that is, to its other candidates; the
  identifier then has no candidate left. A request for a touch that already has an
  owner changes nothing (an operation on already-terminal state is a no-op). The
  notifications produced are queued in \<open>pending\<close> and dispatched by the callers below.
\<close>

record TouchRegistry =
  candidates :: "(int \<times> nat) list"
  owners :: "(int \<times> nat) list"
  watchers :: "(int \<times> nat) list"
  pending :: "(nat \<times> TouchOwnershipEvent) list"

definition addCandidateOwnerForTouch :: "int \<Rightarrow> nat \<Rightarrow> TouchRegistry \<Rightarrow> TouchRegistry" where
  "addCandidateOwnerForTouch tid r reg =
     (if (tid, r) \<in> set (candidates reg) then reg
      else reg\<lparr>candidates := candidates reg @ [(tid, r)]\<rparr>)"

definition removeCandidateOwnerForTouch :: "int \<Rightarrow> nat \<Rightarrow> TouchRegistry \<Rightarrow> TouchRegistry" where
  "removeCandidateOwnerForTouch tid r reg = reg\<lparr>candidates := removeAll (tid, r) (candidates reg)\<rparr>"

definition addTouchWatcher :: "int \<Rightarrow> nat \<Rightarrow> TouchRegistry \<Rightarrow> TouchRegistry" where
  "addTouchWatcher tid r reg =
     (if (tid, r) \<in> set (watchers reg) then reg
      else reg\<lparr>watchers := watchers reg @ [(tid, r)]\<rparr>)"

definition ownerOf :: "TouchRegistry \<Rightarrow> int \<Rightarrow> nat option" where
  "ownerOf reg tid = map_of (owners reg) tid"

definition ownershipLosers :: "int \<Rightarrow> nat \<Rightarrow> TouchRegistry \<Rightarrow> nat list" where
  "ownershipLosers tid r reg =
     remdups (map snd (filter (\<lambda>c. fst c = tid \<and> snd c \<noteq> r) (candidates reg)))"

definition requestTouchOwnership :: "int \<Rightarrow> nat \<Rightarrow> TouchRegistry \<Rightarrow> TouchRegistry" where
  "requestTouchOwnership tid r reg =
     (if ownerOf reg tid \<noteq> None then reg
      else reg\<lparr>candidates := filter (\<lambda>c. fst c \<noteq> tid) (candidates reg),
               owners := owners reg @ [(tid, r)],
               pending := pending reg @ [(r, TouchOwnershipEvent tid True)]
                          @ map (\<lambda>loser. (loser, TouchOwnershipEvent tid False))
                                (ownershipLosers tid r reg)\<rparr>)"

subsection \<open>The recognizer: UCDragGesturePrivate\<close>

datatype Signal =
  statusChanged Status
| draggingChanged bool
| pressedChanged bool
| touchPosChanged QPointF
| distanceChanged real
| sceneDistanceChanged real
| touchScenePosChanged QPointF

datatype Diagnostic =
  Warning_recognitionPropertiesWronglySet
| Critical_touchMissing Status int

text \<open>
  The members of \<open>UCDragGesturePrivate\<close>, with the state of the item \<open>q\<close> that the code
  reads: \<open>item\<close> names \<open>q\<close>; \<open>isEnabled\<close>, \<open>isVisible\<close> and \<open>mapToScene\<close> are those of
  \<open>QQuickItem\<close> (Qt); \<open>recognitionTimerRunning\<close> is the single-shot recognition timer;
  \<open>grabbedTouchPoints\<close> collects the calls of \<open>q->grabTouchPoints\<close>; \<open>emitted\<close> is
  the sequence of signals emitted with \<open>Q_EMIT\<close>; \<open>diagnostics\<close> is what was written
  with \<open>qWarning\<close> and \<open>qCritical\<close>.
\<close>

record DragGesture =
  item :: nat
  isEnabled :: bool
  isVisible :: bool
  mapToScene :: "QPointF \<Rightarrow> QPointF"
  status :: Status
  sceneDistance :: real
  touchId :: int
  direction :: Direction
  distanceThreshold :: real
  distanceThresholdSquared :: real
  maxDistance :: real
  maxTime :: int
  compositionTime :: int
  immediateRecognition :: bool
  recognitionTimerRunning :: bool
  startPos :: QPointF
  startScenePos :: QPointF
  dampedScenePos :: DampedPointF
  previousDampedScenePos :: QPointF
  publicPos :: QPointF
  publicScenePos :: QPointF
  sceneDirectionVector :: QPointF
  activeTouches :: "ActiveTouchInfo Pool"
  grabbedTouchPoints :: "int list"
  emitted :: "Signal list"
  diagnostics :: "Diagnostic list"

text \<open>
  What a handler works on: the recognizer itself, the process-wide broker
  (\<open>TouchRegistry::instance()\<close>), and the accepted flag of the event being handled.
\<close>

record World =
  this :: DragGesture
  registry :: TouchRegistry
  accepted :: bool

definition distance :: "DragGesture \<Rightarrow> real" where
  "distance d =
     (if isHorizontal (direction d) then fst (publicPos d) - fst (startPos d)
      else snd (publicPos d) - snd (startPos d))"

definition dragging :: "DragGesture \<Rightarrow> bool" where
  "dragging d = (status d = Recognized)"

definition pressed :: "DragGesture \<Rightarrow> bool" where
  "pressed d = (status d \<noteq> WaitingForTouch)"

definition projectOntoDirectionVector :: "QPointF \<Rightarrow> DragGesture \<Rightarrow> real" where
  "projectOntoDirectionVector sceneVector d =
     fst sceneVector * fst (sceneDirectionVector d) + snd sceneVector * snd (sceneDirectionVector d)"

definition updateSceneDistance :: "DragGesture \<Rightarrow> DragGesture" where
  "updateSceneDistance d =
     (let totalMovement = (fst (publicScenePos d) - fst (startScenePos d),
                           snd (publicScenePos d) - snd (startScenePos d))
      in d\<lparr>sceneDistance := projectOntoDirectionVector totalMovement d\<rparr>)"

definition updateSceneDirectionVector :: "DragGesture \<Rightarrow> DragGesture" where
  "updateSceneDirectionVector d =
     (let localOrigin = (0, 0);
          localDirection = (case direction d of
                              Upwards \<Rightarrow> (0, -1)
                            | Downwards \<Rightarrow> (0, 1)
                            | Vertical \<Rightarrow> (0, 1)
                            | Leftwards \<Rightarrow> (-1, 0)
                            | _ \<Rightarrow> (1, 0));
          sceneOrigin = mapToScene d localOrigin;
          sceneDirection = mapToScene d localDirection
      in d\<lparr>sceneDirectionVector := (fst sceneDirection - fst sceneOrigin,
                                      snd sceneDirection - snd sceneOrigin)\<rparr>)"

definition recognitionIsDisabled :: "DragGesture \<Rightarrow> bool" where
  "recognitionIsDisabled d =
     (immediateRecognition d \<or> (distanceThreshold d \<le> 0 \<and> compositionTime d \<le> 0))"

definition sanityCheckRecognitionProperties :: "DragGesture \<Rightarrow> bool" where
  "sanityCheckRecognitionProperties d =
     (recognitionIsDisabled d
      \<or> (distanceThreshold d < maxDistance d \<and> compositionTime d < maxTime d))"

definition fetchTargetTouchPoint :: "QTouchEvent \<Rightarrow> DragGesture \<Rightarrow> TouchPoint option" where
  "fetchTargetTouchPoint event d = find (\<lambda>touchPoint. tp_id touchPoint = touchId d) event"

text \<open>
  The two local vectors of the checks below: \<open>movementVector\<close> is the movement of the
  damped position since the previous sample, \<open>totalMovement\<close> its movement since the
  start of the gesture.
\<close>

definition movementVector :: "DragGesture \<Rightarrow> QPointF" where
  "movementVector d =
     (fst (dp_value (dampedScenePos d)) - fst (previousDampedScenePos d),
      snd (dp_value (dampedScenePos d)) - snd (previousDampedScenePos d))"

definition totalMovement :: "DragGesture \<Rightarrow> QPointF" where
  "totalMovement d =
     (fst (dp_value (dampedScenePos d)) - fst (startScenePos d),
      snd (dp_value (dampedScenePos d)) - snd (startScenePos d))"

definition movingInRightDirection :: "DragGesture \<Rightarrow> bool" where
  "movingInRightDirection d =
     (if direction d = Horizontal \<or> direction d = Vertical then True
      else
        (let scalarProjection = projectOntoDirectionVector (movementVector d) d
         in scalarProjection \<ge> 0))"

definition movedFarEnoughAlongGestureAxis :: "DragGesture \<Rightarrow> bool" where
  "movedFarEnoughAlongGestureAxis d =
     (if distanceThreshold d \<le> 0 then True
      else
        (let scalarProjection = projectOntoDirectionVector (totalMovement d) d
         in if direction d = Horizontal \<or> direction d = Vertical
            then \<bar>scalarProjection\<bar> > distanceThreshold d
            else scalarProjection > distanceThreshold d))"

definition isPastMaxDistance :: "DragGesture \<Rightarrow> bool" where
  "isPastMaxDistance d =
     (let squaredDistance = fst (totalMovement d) * fst (totalMovement d)
                          + snd (totalMovement d) * snd (totalMovement d)
      in squaredDistance > maxDistance d * maxDistance d)"

text \<open>
  \<open>isWithinTouchCompositionWindow\<close>: the conjunction is evaluated left to right, so
  \<open>mostRecentStartTime\<close> is called only when the first two conjuncts hold; its failed
  assertion would be the failure of the caller.
\<close>

definition isWithinTouchCompositionWindow :: "int \<Rightarrow> DragGesture \<Rightarrow> bool option" where
  "isWithinTouchCompositionWindow now d =
     (if compositionTime d > 0 \<and> \<not> Pool_isEmpty (activeTouches d)
      then map_option (\<lambda>t. now \<le> t + compositionTime d) (mostRecentStartTime (activeTouches d))
      else Some False)"

definition setStatus :: "Status \<Rightarrow> DragGesture \<Rightarrow> DragGesture" where
  "setStatus newStatus d =
     (if newStatus = status d then d
      else
        (let oldStatus = status d;
             d1 = (if oldStatus = Undecided then d\<lparr>recognitionTimerRunning := False\<rparr> else d);
             d2 = d1\<lparr>status := newStatus, emitted := emitted d1 @ [statusChanged newStatus]\<rparr>
         in case newStatus of
              WaitingForTouch \<Rightarrow>
                d2\<lparr>emitted := emitted d2
                        @ (if oldStatus = Recognized then [draggingChanged False] else [])
                        @ [pressedChanged False]\<rparr>
            | Undecided \<Rightarrow>
                d2\<lparr>recognitionTimerRunning := True,
                   emitted := emitted d2 @ [pressedChanged True]\<rparr>
            | Recognized \<Rightarrow>
                d2\<lparr>emitted := emitted d2 @ [draggingChanged True]\<rparr>))"

definition setPublicPos :: "QPointF \<Rightarrow> DragGesture \<Rightarrow> DragGesture option" where
  "setPublicPos point d =
     (let xChanged = (fst (publicPos d) \<noteq> fst point);
          yChanged = (snd (publicPos d) \<noteq> snd point)
      in if \<not> (status d = WaitingForTouch \<or> status d = Recognized) then None
         else
           (let d1 = (if status d = Recognized \<and> \<not> recognitionIsDisabled d
                      then d\<lparr>publicPos :=
                               (fst (publicPos d) + 0.4 * (fst point - fst (publicPos d)),
                                snd (publicPos d) + 0.4 * (snd point - snd (publicPos d)))\<rparr>
                      else d\<lparr>publicPos := point\<rparr>);
                d2 = (if xChanged
                      then d1\<lparr>emitted := emitted d1 @ [touchPosChanged (publicPos d1)]
                                @ (if isHorizontal (direction d1)
                                   then [distanceChanged (distance d1)] else [])\<rparr>
                      else d1);
                d3 = (if yChanged
                      then d2\<lparr>emitted := emitted d2 @ [touchPosChanged (publicPos d2)]
                                @ (if isVertical (direction d2)
                                   then [distanceChanged (distance d2)] else [])\<rparr>
                      else d2)
            in Some d3))"

definition setPublicScenePos :: "QPointF \<Rightarrow> DragGesture \<Rightarrow> DragGesture option" where
  "setPublicScenePos point d =
     (let xChanged = (fst (publicScenePos d) \<noteq> fst point);
          yChanged = (snd (publicScenePos d) \<noteq> snd point)
      in if \<not> xChanged \<and> \<not> yChanged then Some d
         else if \<not> (status d = WaitingForTouch \<or> status d = Recognized) then None
         else
           (let oldSceneDistance = sceneDistance d;
                d1 = (if status d = Recognized \<and> \<not> recognitionIsDisabled d
                      then d\<lparr>publicScenePos :=
                               (fst (publicScenePos d) + 0.4 * (fst point - fst (publicScenePos d)),
                                snd (publicScenePos d) + 0.4 * (snd point - snd (publicScenePos d)))\<rparr>
                      else d\<lparr>publicScenePos := point\<rparr>);
                d2 = updateSceneDistance d1;
                d3 = (if oldSceneDistance \<noteq> sceneDistance d2
                      then d2\<lparr>emitted := emitted d2 @ [sceneDistanceChanged (sceneDistance d2)]\<rparr>
                      else d2);
                d4 = (if xChanged \<or> yChanged
                      then d3\<lparr>emitted := emitted d3 @ [touchScenePosChanged (publicScenePos d3)]\<rparr>
                      else d3)
            in Some d4))"

subsection \<open>Ownership events\<close>

text \<open>
  \<open>touchOwnershipEvent\<close>. On a gain the item grabs the touch point (the workaround
  that ungrabs the mouse concerns the window only and is left out); on a loss it
  becomes a watcher of its touch and resets.
\<close>

definition touchOwnershipEvent :: "TouchOwnershipEvent \<Rightarrow> World \<Rightarrow> World" where
  "touchOwnershipEvent event w =
     (let d = this w
      in if gained event
         then w\<lparr>this := d\<lparr>grabbedTouchPoints := grabbedTouchPoints d @ [ev_touchId event]\<rparr>\<rparr>
         else w\<lparr>registry := addTouchWatcher (touchId d) (item d) (registry w),
                this := setStatus WaitingForTouch d\<rparr>)"

text \<open>
  \<open>TouchRegistry::instance()->requestTouchOwnership(touchId, q)\<close> as the recognizer
  calls it. The broker delivers its notifications within the call: the ones addressed
  to this item are handled here, the ones for other items stay in \<open>pending\<close> for
  those items.
\<close>

fun dispatchOwn :: "(nat \<times> TouchOwnershipEvent) list \<Rightarrow> World \<Rightarrow> World" where
  "dispatchOwn [] w = w"
| "dispatchOwn ((r, event) # rest) w =
     dispatchOwn rest
       (if r = item (this w) then touchOwnershipEvent event w
        else w\<lparr>registry := (registry w)\<lparr>pending := pending (registry w) @ [(r, event)]\<rparr>\<rparr>)"

definition requestTouchOwnership_call :: "World \<Rightarrow> World" where
  "requestTouchOwnership_call w =
     (let reg = requestTouchOwnership (touchId (this w)) (item (this w)) ((registry w)\<lparr>pending := []\<rparr>)
      in dispatchOwn (pending reg)
           (w\<lparr>registry := reg\<lparr>pending := pending (registry w)\<rparr>\<rparr>))"

subsection \<open>Touch events\<close>

fun watchPressedTouchPoints :: "TouchPoint list \<Rightarrow> nat \<Rightarrow> TouchRegistry \<Rightarrow> TouchRegistry" where
  "watchPressedTouchPoints [] r reg = reg"
| "watchPressedTouchPoints (touchPoint # rest) r reg =
     watchPressedTouchPoints rest r
       (if tp_state touchPoint = TouchPointPressed then addTouchWatcher (tp_id touchPoint) r reg
        else reg)"

text \<open>
  The loop of \<open>touchEvent_absent\<close> over the touch points: it runs while \<open>allGood\<close>
  holds, takes the first pressed point as the candidate and gives up at a second one.
\<close>

fun findNewTouchPoint :: "TouchPoint list \<Rightarrow> TouchPoint option \<times> bool \<Rightarrow> TouchPoint option \<times> bool" where
  "findNewTouchPoint [] (newTouchPoint, allGood) = (newTouchPoint, allGood)"
| "findNewTouchPoint (touchPoint # rest) (newTouchPoint, allGood) =
     (if \<not> allGood then (newTouchPoint, allGood)
      else if tp_state touchPoint = TouchPointPressed
      then (case newTouchPoint of
              Some _ \<Rightarrow> findNewTouchPoint rest (newTouchPoint, False)
            | None \<Rightarrow> findNewTouchPoint rest (Some touchPoint, allGood))
      else findNewTouchPoint rest (newTouchPoint, allGood))"

definition touchEvent_absent :: "int \<Rightarrow> QTouchEvent \<Rightarrow> World \<Rightarrow> World option" where
  "touchEvent_absent now event w =
     (if \<not> testFlag event TouchPointPressed then Some w
      else do {
        inWindow \<leftarrow> isWithinTouchCompositionWindow now (this w);
        let (newTouchPoint, allGood1) = findNewTouchPoint event (None, \<not> inWindow);
        let allGood2 = (if allGood1 then sanityCheckRecognitionProperties (this w) else allGood1);
        let d0 = (if allGood1 \<and> \<not> allGood2
                  then (this w)\<lparr>diagnostics := diagnostics (this w)
                                   @ [Warning_recognitionPropertiesWronglySet]\<rparr>
                  else this w);
        if allGood2 then
          (case newTouchPoint of
             None \<Rightarrow> None
           | Some ntp \<Rightarrow> do {
               let d1 = d0\<lparr>startPos := tp_pos ntp, startScenePos := tp_scenePos ntp,
                           touchId := tp_id ntp,
                           dampedScenePos := DampedPointF_reset (tp_scenePos ntp) (dampedScenePos d0)\<rparr>;
               d2 \<leftarrow> setPublicPos (startPos d1) d1;
               d3 \<leftarrow> setPublicScenePos (startScenePos d2) d2;
               let d4 = updateSceneDirectionVector d3;
               if recognitionIsDisabled d4 then do {
                 let w1 = requestTouchOwnership_call (w\<lparr>this := d4\<rparr>);
                 Some (w1\<lparr>this := setStatus Recognized (this w1), accepted := True\<rparr>)
               } else
                 Some (w\<lparr>this := setStatus Undecided d4,
                         registry := addCandidateOwnerForTouch (touchId d4) (item d4) (registry w),
                         accepted := False\<rparr>)
             })
        else
          Some (w\<lparr>this := d0,
                  registry := watchPressedTouchPoints event (item d0) (registry w),
                  accepted := False\<rparr>)
      })"

definition touchEvent_undecided :: "int \<Rightarrow> QTouchEvent \<Rightarrow> World \<Rightarrow> World option" where
  "touchEvent_undecided now event w =
     (if fetchTargetTouchPoint event (this w) \<noteq> None then None
      else do {
        let w1 = w\<lparr>accepted := False,
                   registry := watchPressedTouchPoints event (item (this w)) (registry w)\<rparr>;
        inWindow \<leftarrow> (if testFlag event TouchPointPressed
                   then isWithinTouchCompositionWindow now (this w1) else Some False);
        if inWindow then
          Some (w1\<lparr>registry := addTouchWatcher (touchId (this w1)) (item (this w1))
                                (removeCandidateOwnerForTouch (touchId (this w1)) (item (this w1))
                                   (registry w1)),
                   this := setStatus WaitingForTouch (this w1)\<rparr>)
        else Some w1
      })"

definition touchEvent_recognized :: "QTouchEvent \<Rightarrow> World \<Rightarrow> World option" where
  "touchEvent_recognized event w =
     (case fetchTargetTouchPoint event (this w) of
        None \<Rightarrow>
          Some (w\<lparr>this := setStatus WaitingForTouch
                    ((this w)\<lparr>diagnostics := diagnostics (this w)
                                 @ [Critical_touchMissing Recognized (touchId (this w))]\<rparr>)\<rparr>)
      | Some touchPoint \<Rightarrow> do {
          d1 \<leftarrow> setPublicPos (tp_pos touchPoint) (this w);
          d2 \<leftarrow> setPublicScenePos (tp_scenePos touchPoint) d1;
          Some (w\<lparr>this := (if tp_state touchPoint = TouchPointReleased
                            then setStatus WaitingForTouch d2 else d2)\<rparr>)
        })"

text \<open>
  \<open>UCDragGesture::touchEvent\<close>. A disabled or invisible item hands the event to
  \<open>QQuickItem::touchEvent\<close>, which ignores it.
\<close>

definition touchEvent :: "int \<Rightarrow> QTouchEvent \<Rightarrow> World \<Rightarrow> World option" where
  "touchEvent now event w =
     (if \<not> isEnabled (this w) \<or> \<not> isVisible (this w) then Some (w\<lparr>accepted := False\<rparr>)
      else do {
        w1 \<leftarrow> (case status (this w) of
                 WaitingForTouch \<Rightarrow> touchEvent_absent now event w
               | Undecided \<Rightarrow> touchEvent_undecided now event w
               | Recognized \<Rightarrow> touchEvent_recognized event w);
        Some (w1\<lparr>this := (this w1)\<lparr>activeTouches :=
                   ActiveTouchesInfo_update now event (activeTouches (this w1))\<rparr>\<rparr>)
      })"

subsection \<open>Unowned touch events\<close>

text \<open>
  The three statements of \<open>unownedTouchEvent_undecided\<close> that take a sample: the damped
  position is remembered as the previous one and then updated with the scene position
  of the touch point.
\<close>

definition takeSample :: "TouchPoint \<Rightarrow> DragGesture \<Rightarrow> DragGesture" where
  "takeSample touchPoint d =
     d\<lparr>previousDampedScenePos := dp_value (dampedScenePos d),
       dampedScenePos := DampedPointF_update (tp_scenePos touchPoint) (dampedScenePos d)\<rparr>"

definition unownedTouchEvent_undecided :: "int \<Rightarrow> QTouchEvent \<Rightarrow> World \<Rightarrow> World option" where
  "unownedTouchEvent_undecided now event w =
     (case fetchTargetTouchPoint event (this w) of
        None \<Rightarrow>
          Some (w\<lparr>registry := removeCandidateOwnerForTouch (touchId (this w)) (item (this w))
                                (registry w),
                  this := setStatus WaitingForTouch
                    ((this w)\<lparr>diagnostics := diagnostics (this w)
                                 @ [Critical_touchMissing Undecided (touchId (this w))]\<rparr>)\<rparr>)
      | Some touchPoint \<Rightarrow>
          if tp_state touchPoint = TouchPointReleased then
            Some (w\<lparr>registry := removeCandidateOwnerForTouch (touchId (this w)) (item (this w))
                                  (registry w),
                    this := setStatus WaitingForTouch (this w)\<rparr>)
          else
            (let d1 = takeSample touchPoint (this w)
             in if \<not> movingInRightDirection d1 then
                  Some (w\<lparr>registry := addTouchWatcher (touchId d1) (item d1)
                                        (removeCandidateOwnerForTouch (touchId d1) (item d1)
                                           (registry w)),
                          this := setStatus WaitingForTouch d1\<rparr>)
                else do {
                  inWindow \<leftarrow> isWithinTouchCompositionWindow now d1;
                  if inWindow then Some (w\<lparr>this := d1\<rparr>)
                  else if movedFarEnoughAlongGestureAxis d1 then do {
                    let w1 = requestTouchOwnership_call (w\<lparr>this := d1\<rparr>);
                    let d2 = setStatus Recognized (this w1);
                    d3 \<leftarrow> setPublicPos (tp_pos touchPoint) d2;
                    d4 \<leftarrow> setPublicScenePos (tp_scenePos touchPoint) d3;
                    Some (w1\<lparr>this := d4\<rparr>)
                  }
                  else if isPastMaxDistance d1 then
                    Some (w\<lparr>registry := addTouchWatcher (touchId d1) (item d1)
                                          (removeCandidateOwnerForTouch (touchId d1) (item d1)
                                             (registry w)),
                            this := setStatus WaitingForTouch d1\<rparr>)
                  else Some (w\<lparr>this := d1\<rparr>)
                }))"

definition unownedTouchEvent :: "int \<Rightarrow> QTouchEvent \<Rightarrow> World \<Rightarrow> World option" where
  "unownedTouchEvent now event w =
     (if testFlag event TouchPointPressed then None
      else do {
        w1 \<leftarrow> (case status (this w) of
                 WaitingForTouch \<Rightarrow> Some w
               | Undecided \<Rightarrow>
                   if isEnabled (this w) \<and> isVisible (this w)
                   then unownedTouchEvent_undecided now event w else None
               | Recognized \<Rightarrow> Some w);
        Some (w1\<lparr>this := (this w1)\<lparr>activeTouches :=
                   ActiveTouchesInfo_update now event (activeTouches (this w1))\<rparr>\<rparr>)
      })"

subsection \<open>Timer and visibility\<close>

definition rejectGesture :: "World \<Rightarrow> World" where
  "rejectGesture w =
     (if status (this w) = Undecided
      then w\<lparr>registry := addTouchWatcher (touchId (this w)) (item (this w))
                           (removeCandidateOwnerForTouch (touchId (this w)) (item (this w))
                              (registry w)),
             this := setStatus WaitingForTouch (this w)\<rparr>
      else w)"

definition giveUpIfDisabledOrInvisible :: "World \<Rightarrow> World" where
  "giveUpIfDisabledOrInvisible w =
     (if \<not> isEnabled (this w) \<or> \<not> isVisible (this w) then
        (let w1 = (if status (this w) = Undecided
                   then w\<lparr>registry := addTouchWatcher (touchId (this w)) (item (this w))
                                        (removeCandidateOwnerForTouch (touchId (this w))
                                           (item (this w)) (registry w))\<rparr>
                   else w)
         in if status (this w1) \<noteq> WaitingForTouch
            then w1\<lparr>this := setStatus WaitingForTouch (this w1)\<rparr>
            else w1)
      else w)"

text \<open>
  The constructor, followed by \<open>setPixelsPerMm\<close> (which sets the members the
  constructor leaves uninitialised). Points start at the origin.
\<close>

definition setDistanceThreshold :: "real \<Rightarrow> DragGesture \<Rightarrow> DragGesture" where
  "setDistanceThreshold v d =
     (if distanceThreshold d \<noteq> v
      then d\<lparr>distanceThreshold := v, distanceThresholdSquared := v * v\<rparr>
      else d)"

definition setPixelsPerMm :: "real \<Rightarrow> DragGesture \<Rightarrow> DragGesture" where
  "setPixelsPerMm pixelsPerMm d =
     (setDistanceThreshold (4 * pixelsPerMm)
        (d\<lparr>dampedScenePos := setMaxDelta (1 * pixelsPerMm) (dampedScenePos d)\<rparr>))
     \<lparr>maxDistance := 10 * pixelsPerMm\<rparr>"

definition UCDragGesturePrivate :: "nat \<Rightarrow> nat \<Rightarrow> real \<Rightarrow> DragGesture" where
  "UCDragGesturePrivate q capacity pixelsPerMm =
     setPixelsPerMm pixelsPerMm
       \<lparr>item = q, isEnabled = True, isVisible = True, mapToScene = (\<lambda>point. point),
        status = WaitingForTouch, sceneDistance = 0, touchId = -1, direction = Rightwards,
        distanceThreshold = 0, distanceThresholdSquared = 0, maxDistance = 0,
        maxTime = 400, compositionTime = 60, immediateRecognition = False,
        recognitionTimerRunning = False,
        startPos = (0, 0), startScenePos = (0, 0),
        dampedScenePos = \<lparr>dp_value = (0, 0), dp_maxDelta = 0\<rparr>,
        previousDampedScenePos = (0, 0), publicPos = (0, 0), publicScenePos = (0, 0),
        sceneDirectionVector = (0, 0),
        activeTouches = replicate capacity None,
        grabbedTouchPoints = [], emitted = [], diagnostics = []\<rparr>"

definition TouchRegistry_instance :: TouchRegistry where
  "TouchRegistry_instance = \<lparr>candidates = [], owners = [], watchers = [], pending = []\<rparr>"

subsection \<open>Signals and the values they announce\<close>

text \<open>
  The signals a call has emitted, and what it means for a signal to announce a change:
  the value it is about differs between the state before the call and the state
  after it, and the signal carries the value after.
\<close>

definition newSignals :: "DragGesture \<Rightarrow> DragGesture \<Rightarrow> Signal list" where
  "newSignals d d' = drop (length (emitted d)) (emitted d')"

definition valueChanged :: "Signal \<Rightarrow> DragGesture \<Rightarrow> DragGesture \<Rightarrow> bool" where
  "valueChanged sig d d' =
     (case sig of
        statusChanged s \<Rightarrow> status d' \<noteq> status d \<and> s = status d'
      | draggingChanged b \<Rightarrow> dragging d' \<noteq> dragging d \<and> b = dragging d'
      | pressedChanged b \<Rightarrow> pressed d' \<noteq> pressed d \<and> b = pressed d'
      | touchPosChanged point \<Rightarrow> publicPos d' \<noteq> publicPos d \<and> point = publicPos d'
      | distanceChanged v \<Rightarrow> distance d' \<noteq> distance d \<and> v = distance d'
      | sceneDistanceChanged v \<Rightarrow> sceneDistance d' \<noteq> sceneDistance d \<and> v = sceneDistance d'
      | touchScenePosChanged point \<Rightarrow>
          publicScenePos d' \<noteq> publicScenePos d \<and> point = publicScenePos d')"

subsection \<open>Several recognizers on one broker\<close>

text \<open>
  The recognizers of the process and the broker they share. An event is handled by one
  recognizer; the ownership notifications that the broker has for other recognizers
  are then delivered to them through \<open>touchOwnershipEvent\<close> (the route of
  \<open>UCDragGesture::event\<close>).
\<close>

record System =
  sys_registry :: TouchRegistry
  sys_items :: "nat \<Rightarrow> DragGesture"

datatype SystemEvent =
  TouchEvent nat int QTouchEvent
| UnownedTouchEvent nat int QTouchEvent
| RecognitionTimeout nat
| EnabledChanged nat bool
| VisibleChanged nat bool

definition enter :: "nat \<Rightarrow> System \<Rightarrow> World" where
  "enter q s = \<lparr>this = sys_items s q, registry = sys_registry s, accepted = False\<rparr>"

fun deliverPending :: "(nat \<times> TouchOwnershipEvent) list \<Rightarrow> System \<Rightarrow> System" where
  "deliverPending [] s = s"
| "deliverPending ((r, event) # rest) s =
     (let w = touchOwnershipEvent event (enter r s)
      in deliverPending rest (s\<lparr>sys_items := (sys_items s)(r := this w),
                                 sys_registry := registry w\<rparr>))"

definition commit :: "nat \<Rightarrow> World \<Rightarrow> System \<Rightarrow> System" where
  "commit q w s =
     deliverPending (pending (registry w))
       \<lparr>sys_registry = (registry w)\<lparr>pending := []\<rparr>, sys_items = (sys_items s)(q := this w)\<rparr>"

fun step :: "SystemEvent \<Rightarrow> System \<Rightarrow> System option" where
  "step (TouchEvent q now event) s =
     map_option (\<lambda>w. commit q w s) (touchEvent now event (enter q s))"
| "step (UnownedTouchEvent q now event) s =
     map_option (\<lambda>w. commit q w s) (unownedTouchEvent now event (enter q s))"
| "step (RecognitionTimeout q) s =
     Some (if recognitionTimerRunning (sys_items s q)
           then commit q (rejectGesture
                            ((enter q s)\<lparr>this := (sys_items s q)\<lparr>recognitionTimerRunning := False\<rparr>\<rparr>)) s
           else s)"
| "step (EnabledChanged q b) s =
     Some (commit q (giveUpIfDisabledOrInvisible
                       ((enter q s)\<lparr>this := (sys_items s q)\<lparr>isEnabled := b\<rparr>\<rparr>)) s)"
| "step (VisibleChanged q b) s =
     Some (commit q (giveUpIfDisabledOrInvisible
                       ((enter q s)\<lparr>this := (sys_items s q)\<lparr>isVisible := b\<rparr>\<rparr>)) s)"




subsection \<open>Outcomes of a handler\<close>

text \<open>
  A rejection of the gesture of recognizer \<open>d\<close>: the handler returns, the recognizer
  waits for a touch again, it is no longer a candidate for its touch, and it watches
  that touch.
\<close>

definition isRejected :: "DragGesture \<Rightarrow> World option \<Rightarrow> bool" where
  "isRejected d result =
     (case result of
        None \<Rightarrow> False
      | Some w' \<Rightarrow> status (this w') = WaitingForTouch
                 \<and> (touchId d, item d) \<notin> set (candidates (registry w'))
                 \<and> (touchId d, item d) \<in> set (watchers (registry w')))"

definition resultStatus :: "World option \<Rightarrow> Status option" where
  "resultStatus result = map_option (\<lambda>w'. status (this w')) result"

definition resultDiagnostics :: "World option \<Rightarrow> Diagnostic list option" where
  "resultDiagnostics result = map_option (\<lambda>w'. diagnostics (this w')) result"

text \<open>
  An update of the watched touch that \<open>unownedTouchEvent\<close> processes in state Undecided:
  the assertions of the handler hold, the event has the touch of the recognizer, and
  the touch has not been released.
\<close>

definition touchUpdateInUndecided :: "World \<Rightarrow> QTouchEvent \<Rightarrow> TouchPoint \<Rightarrow> bool" where
  "touchUpdateInUndecided w event touchPoint =
     (status (this w) = Undecided \<and> isEnabled (this w) \<and> isVisible (this w)
      \<and> \<not> testFlag event TouchPointPressed
      \<and> fetchTargetTouchPoint event (this w) = Some touchPoint
      \<and> tp_state touchPoint \<noteq> TouchPointReleased)"

subsection \<open>Example states\<close>

text \<open>
  A recognizer on a screen of 10 pixels per millimetre: direction Rightwards, distance
  threshold 40, maximum distance 100, damping step 10, composition time 60 ms and
  maximum time 400 ms. \<open>examplePressed\<close> is its state after touch 7 was pressed at the
  origin at time 0.
\<close>

definition touchPointAt :: "int \<Rightarrow> TouchPointState \<Rightarrow> QPointF \<Rightarrow> TouchPoint" where
  "touchPointAt tid st point = \<lparr>tp_id = tid, tp_state = st, tp_pos = point, tp_scenePos = point\<rparr>"

definition exampleGesture :: DragGesture where
  "exampleGesture = UCDragGesturePrivate 1 4 10"

definition exampleStart :: World where
  "exampleStart = \<lparr>this = exampleGesture, registry = TouchRegistry_instance, accepted = False\<rparr>"

definition examplePressed :: World where
  "examplePressed =
     \<lparr>this = exampleGesture
        \<lparr>status := Undecided, touchId := 7, recognitionTimerRunning := True,
         sceneDirectionVector := (1, 0),
         activeTouches := [Some \<lparr>ati_id = 7, startTime = 0\<rparr>, None, None, None],
         emitted := [statusChanged Undecided, pressedChanged True]\<rparr>,
      registry = TouchRegistry_instance\<lparr>candidates := [(7, 1)]\<rparr>,
      accepted = False\<rparr>"

text \<open>A sequence of unowned touch events, each at its time, handled one after the other.\<close>

fun unownedTouchEvents :: "(int \<times> QTouchEvent) list \<Rightarrow> World \<Rightarrow> World option" where
  "unownedTouchEvents [] w = Some w"
| "unownedTouchEvents ((now, event) # rest) w =
     Option.bind (unownedTouchEvent now event w) (unownedTouchEvents rest)"

text \<open>
  \<open>exampleFar\<close>: the same gesture after samples that brought the damped position to
  (60, 0) while the composition window was open. \<open>exampleSideways\<close>: after samples that
  brought it to (0, 95).
\<close>

definition exampleFar :: World where
  "exampleFar =
     examplePressed\<lparr>this := (this examplePressed)
        \<lparr>previousDampedScenePos := (50, 0),
         dampedScenePos := \<lparr>dp_value = (60, 0), dp_maxDelta = 10\<rparr>\<rparr>\<rparr>"

definition exampleSideways :: World where
  "exampleSideways =
     examplePressed\<lparr>this := (this examplePressed)
        \<lparr>previousDampedScenePos := (0, 85),
         dampedScenePos := \<lparr>dp_value = (0, 95), dp_maxDelta = 10\<rparr>\<rparr>\<rparr>"

text \<open>
  \<open>exampleInconsistent\<close>: the recognizer with a maximum time of 50 ms, below its
  composition time. \<open>exampleDeclined\<close>: its state after touch 7 was pressed at time 0.
\<close>

definition exampleInconsistent :: World where
  "exampleInconsistent = exampleStart\<lparr>this := exampleGesture\<lparr>maxTime := 50\<rparr>\<rparr>"

definition exampleDeclined :: World where
  "exampleDeclined =
     \<lparr>this = exampleGesture
        \<lparr>maxTime := 50,
         activeTouches := [Some \<lparr>ati_id = 7, startTime = 0\<rparr>, None, None, None],
         diagnostics := [Warning_recognitionPropertiesWronglySet]\<rparr>,
      registry = TouchRegistry_instance\<lparr>watchers := [(7, 1)]\<rparr>,
      accepted = False\<rparr>"

subsection \<open>What a handler may do to the broker\<close>






section \<open>The active-touch registry: most recent start time\<close>

lemma highestStartTime_ge: "h0 \<le> highestStartTime infos h0"
  unfolding highestStartTime_def
proof (induction infos arbitrary: h0)
  case Nil
  show ?case by simp
next
  case (Cons a infos)
  have "h0 \<le> (if startTime a > h0 then startTime a else h0)" by simp
  also have "\<dots> \<le> fold (\<lambda>i h. if startTime i > h then startTime i else h) infos
                     (if startTime a > h0 then startTime a else h0)"
    by (rule Cons.IH)
  finally show ?case by simp
qed

lemma Max_insert_max:
  fixes a b :: int
  assumes "finite S"
  shows "Max (insert (max a b) S) = Max (insert a (insert b S))"
proof (cases "S = {}")
  case True
  then show ?thesis by simp
next
  case False
  with assms show ?thesis by (simp add: max.assoc)
qed

lemma highestStartTime_eq_Max:
  "highestStartTime infos h0 = Max (insert h0 (startTime ` set infos))"
  unfolding highestStartTime_def
proof (induction infos arbitrary: h0)
  case Nil
  show ?case by simp
next
  case (Cons a infos)
  have step: "(if startTime a > h0 then startTime a else h0) = max h0 (startTime a)"
    by simp
  have "fold (\<lambda>i h. if startTime i > h then startTime i else h) (a # infos) h0
      = Max (insert (max h0 (startTime a)) (startTime ` set infos))"
    by (simp only: fold_simps step Cons.IH)
  also have "\<dots> = Max (insert h0 (insert (startTime a) (startTime ` set infos)))"
    by (rule Max_insert_max) simp
  finally show ?case by simp
qed

lemma highestStartTime_nonneg:
  assumes "infos \<noteq> []" and "\<forall>a \<in> set infos. 0 \<le> startTime a"
  shows "highestStartTime infos (-1) = Max (startTime ` set infos)"
proof -
  let ?S = "startTime ` set infos"
  from assms(1) obtain a where a: "a \<in> set infos" by (cases infos) auto
  have fin: "finite ?S" and ne: "?S \<noteq> {}" using assms(1) by simp_all
  from a assms(2) have "0 \<le> startTime a" by blast
  moreover have "startTime a \<le> Max ?S" using a fin by simp
  ultimately have "- 1 \<le> Max ?S" by linarith
  then have "max (-1) (Max ?S) = Max ?S" by simp
  then have "Max (insert (-1) ?S) = Max ?S" using fin ne by simp
  then show ?thesis by (simp add: highestStartTime_eq_Max)
qed

lemma isWithinTouchCompositionWindow_defined:
  "isWithinTouchCompositionWindow now d \<noteq> None"
  by (cases "compositionTime d > 0 \<and> \<not> Pool_isEmpty (activeTouches d)")
     (auto simp: isWithinTouchCompositionWindow_def mostRecentStartTime_def)

lemma getEmptySlot_items:
  "set (Pool_items (getEmptySlot a p)) \<subseteq> insert a (set (Pool_items p))"
  by (induction a p rule: getEmptySlot.induct) (auto simp: Pool_items_def List.map_filter_def)

lemma freeFirst_items: "set (Pool_items (freeFirst P p)) \<subseteq> set (Pool_items p)"
  by (induction P p rule: freeFirst.induct) (auto simp: Pool_items_def List.map_filter_def)

text \<open>
  With a time source that never reads below zero, every record of the registry keeps a
  start time that is not negative.
\<close>

lemma update_points_nonneg:
  assumes "0 \<le> now" and "\<forall>a \<in> set (Pool_items p). 0 \<le> startTime a"
  shows "\<forall>a \<in> set (Pool_items (update_points now event p)). 0 \<le> startTime a"
  using assms(2)
proof (induction event arbitrary: p)
  case Nil
  then show ?case by simp
next
  case (Cons touchPoint rest)
  have add: "\<forall>a \<in> set (Pool_items (addTouchPoint now (tp_id touchPoint) p)). 0 \<le> startTime a"
    using getEmptySlot_items[of "\<lparr>ati_id = tp_id touchPoint, startTime = now\<rparr>" p] Cons.prems assms(1)
    unfolding addTouchPoint_def by auto
  have rem: "\<forall>a \<in> set (Pool_items (removeTouchPoint (tp_id touchPoint) p)). 0 \<le> startTime a"
    using freeFirst_items[of _ p] Cons.prems unfolding removeTouchPoint_def by blast
  show ?case using Cons.IH add rem Cons.prems by simp
qed

lemma ActiveTouchesInfo_update_nonneg:
  assumes "0 \<le> now" and "\<forall>a \<in> set (Pool_items p). 0 \<le> startTime a"
  shows "\<forall>a \<in> set (Pool_items (ActiveTouchesInfo_update now event p)). 0 \<le> startTime a"
  using update_points_nonneg[OF assms] assms(2) by (simp add: ActiveTouchesInfo_update_def)

text \<open>
  Claim C9. For a registry that is not empty, \<open>mostRecentStartTime\<close> returns the
  maximum start time among the active touch records (start times are readings of the
  time source, milliseconds since its reference, so none is negative). On an empty
  registry the assertion fires and there is no result; the caller in the recognizer,
  \<open>isWithinTouchCompositionWindow\<close>, checks emptiness first and never fails.
\<close>

theorem mostRecentStartTime_is_maximum:
  "(\<not> Pool_isEmpty p \<and> (\<forall>a \<in> set (Pool_items p). 0 \<le> startTime a)
      \<longrightarrow> mostRecentStartTime p = Some (Max (startTime ` set (Pool_items p))))
   \<and> (Pool_isEmpty p \<longrightarrow> mostRecentStartTime p = None)
   \<and> isWithinTouchCompositionWindow now d \<noteq> None"
proof (intro conjI impI)
  assume "\<not> Pool_isEmpty p \<and> (\<forall>a \<in> set (Pool_items p). 0 \<le> startTime a)"
  then have ne: "Pool_items p \<noteq> []" and nn: "\<forall>a \<in> set (Pool_items p). 0 \<le> startTime a"
    by (simp_all add: Pool_isEmpty_def)
  from ne have "mostRecentStartTime p = Some (highestStartTime (Pool_items p) (-1))"
    by (simp add: mostRecentStartTime_def Pool_isEmpty_def)
  with highestStartTime_nonneg[OF ne nn]
  show "mostRecentStartTime p = Some (Max (startTime ` set (Pool_items p)))" by simp
next
  assume "Pool_isEmpty p"
  then show "mostRecentStartTime p = None" by (simp add: mostRecentStartTime_def)
next
  show "isWithinTouchCompositionWindow now d \<noteq> None"
    by (rule isWithinTouchCompositionWindow_defined)
qed

theorem mostRecentStartTime_is_maximum_witness:
  "mostRecentStartTime [Some \<lparr>ati_id = 7, startTime = 5\<rparr>, None,
                        Some \<lparr>ati_id = 8, startTime = 9\<rparr>, Some \<lparr>ati_id = 3, startTime = 2\<rparr>]
     = Some 9
   \<and> mostRecentStartTime ([None, None] :: ActiveTouchInfo Pool) = None"
proof -
  let ?p = "[Some \<lparr>ati_id = 7, startTime = 5\<rparr>, None,
             Some \<lparr>ati_id = 8, startTime = 9\<rparr>, Some \<lparr>ati_id = 3, startTime = 2\<rparr>]"
  have items: "Pool_items ?p = [\<lparr>ati_id = 7, startTime = 5\<rparr>, \<lparr>ati_id = 8, startTime = 9\<rparr>,
                                \<lparr>ati_id = 3, startTime = 2\<rparr>]"
    by (simp add: Pool_items_def List.map_filter_def)
  have e: "Pool_isEmpty ([None, None] :: ActiveTouchInfo Pool)"
    by (simp add: Pool_isEmpty_def Pool_items_def List.map_filter_def)
  have "mostRecentStartTime ?p = Some (Max (startTime ` set (Pool_items ?p)))"
    using mostRecentStartTime_is_maximum[of ?p] by (simp add: items Pool_isEmpty_def)
  moreover have "mostRecentStartTime ([None, None] :: ActiveTouchInfo Pool) = None"
    using mostRecentStartTime_is_maximum[of "[None, None]"] e by simp
  ultimately show ?thesis by (simp add: items)
qed

section \<open>The public accessors\<close>

text \<open>
  Claim C10. In every state of the recognizer, \<open>dragging()\<close> is true exactly when the
  status is Recognized and \<open>pressed()\<close> is true exactly when the status is not
  WaitingForTouch; so \<open>dragging()\<close> implies \<open>pressed()\<close>.
\<close>

theorem dragging_implies_pressed:
  "dragging d = (status d = Recognized)
   \<and> pressed d = (status d \<noteq> WaitingForTouch)
   \<and> (dragging d \<longrightarrow> pressed d)"
  by (auto simp: dragging_def pressed_def)

theorem dragging_implies_pressed_witness:
  "dragging (setStatus Recognized (UCDragGesturePrivate 1 4 1))
   \<and> pressed (setStatus Recognized (UCDragGesturePrivate 1 4 1))
   \<and> \<not> dragging (UCDragGesturePrivate 1 4 1) \<and> \<not> pressed (UCDragGesturePrivate 1 4 1)"
proof -
  have s: "status (setStatus Recognized (UCDragGesturePrivate 1 4 1)) = Recognized"
    by (simp add: setStatus_def UCDragGesturePrivate_def setPixelsPerMm_def
        setDistanceThreshold_def)
  have w: "status (UCDragGesturePrivate 1 4 1) = WaitingForTouch"
    by (simp add: UCDragGesturePrivate_def setPixelsPerMm_def setDistanceThreshold_def)
  show ?thesis
    using dragging_implies_pressed[of "setStatus Recognized (UCDragGesturePrivate 1 4 1)"]
      dragging_implies_pressed[of "UCDragGesturePrivate 1 4 1"] s w
    by simp
qed

section \<open>Lemmas about the setters, the broker and the paths of the handlers\<close>

lemma setStatus_fields:
  "status (setStatus newStatus d) = newStatus"
  "item (setStatus newStatus d) = item d"
  "touchId (setStatus newStatus d) = touchId d"
  "grabbedTouchPoints (setStatus newStatus d) = grabbedTouchPoints d"
  "activeTouches (setStatus newStatus d) = activeTouches d"
  "diagnostics (setStatus newStatus d) = diagnostics d"
  by (cases newStatus; simp add: setStatus_def Let_def)+

lemma withdraw_and_watch:
  "(tid, r) \<notin> set (candidates (addTouchWatcher tid r (removeCandidateOwnerForTouch tid r reg)))"
  "(tid, r) \<in> set (watchers (addTouchWatcher tid r (removeCandidateOwnerForTouch tid r reg)))"
  "owners (addTouchWatcher tid r (removeCandidateOwnerForTouch tid r reg)) = owners reg"
  "pending (addTouchWatcher tid r (removeCandidateOwnerForTouch tid r reg)) = pending reg"
  by (simp_all add: addTouchWatcher_def removeCandidateOwnerForTouch_def)










lemma takeSample_fields:
  "status (takeSample tp d) = status d" "item (takeSample tp d) = item d"
  "touchId (takeSample tp d) = touchId d" "activeTouches (takeSample tp d) = activeTouches d"
  "compositionTime (takeSample tp d) = compositionTime d"
  "direction (takeSample tp d) = direction d"
  "distanceThreshold (takeSample tp d) = distanceThreshold d"
  "maxDistance (takeSample tp d) = maxDistance d"
  "grabbedTouchPoints (takeSample tp d) = grabbedTouchPoints d"
  "diagnostics (takeSample tp d) = diagnostics d"
  by (simp_all add: takeSample_def)

lemma isWithin_takeSample:
  "isWithinTouchCompositionWindow now (takeSample tp d) = isWithinTouchCompositionWindow now d"
  by (simp add: isWithinTouchCompositionWindow_def takeSample_fields)

text \<open>The wrapper around the Undecided case.\<close>

lemma unownedTouchEvent_Undecided:
  assumes "status (this w) = Undecided" "isEnabled (this w)" "isVisible (this w)"
    "\<not> testFlag event TouchPointPressed"
  shows "unownedTouchEvent now event w =
     map_option (\<lambda>w1. w1\<lparr>this := (this w1)\<lparr>activeTouches :=
                   ActiveTouchesInfo_update now event (activeTouches (this w1))\<rparr>\<rparr>)
       (unownedTouchEvent_undecided now event w)"
  using assms by (cases "unownedTouchEvent_undecided now event w") (simp_all add: unownedTouchEvent_def)

lemma undecided_wrong_direction:
  assumes "fetchTargetTouchPoint event (this w) = Some tp" "tp_state tp \<noteq> TouchPointReleased"
    "\<not> movingInRightDirection (takeSample tp (this w))"
  shows "unownedTouchEvent_undecided now event w =
     Some (w\<lparr>registry := addTouchWatcher (touchId (this w)) (item (this w))
                           (removeCandidateOwnerForTouch (touchId (this w)) (item (this w)) (registry w)),
             this := setStatus WaitingForTouch (takeSample tp (this w))\<rparr>)"
  using assms by (simp add: unownedTouchEvent_undecided_def Let_def takeSample_fields)

lemma undecided_in_window:
  assumes "fetchTargetTouchPoint event (this w) = Some tp" "tp_state tp \<noteq> TouchPointReleased"
    "movingInRightDirection (takeSample tp (this w))"
    "isWithinTouchCompositionWindow now (this w) = Some True"
  shows "unownedTouchEvent_undecided now event w = Some (w\<lparr>this := takeSample tp (this w)\<rparr>)"
  using assms by (simp add: unownedTouchEvent_undecided_def Let_def isWithin_takeSample)

lemma undecided_past_max:
  assumes "fetchTargetTouchPoint event (this w) = Some tp" "tp_state tp \<noteq> TouchPointReleased"
    "movingInRightDirection (takeSample tp (this w))"
    "isWithinTouchCompositionWindow now (this w) = Some False"
    "\<not> movedFarEnoughAlongGestureAxis (takeSample tp (this w))"
    "isPastMaxDistance (takeSample tp (this w))"
  shows "unownedTouchEvent_undecided now event w =
     Some (w\<lparr>registry := addTouchWatcher (touchId (this w)) (item (this w))
                           (removeCandidateOwnerForTouch (touchId (this w)) (item (this w)) (registry w)),
             this := setStatus WaitingForTouch (takeSample tp (this w))\<rparr>)"
  using assms by (simp add: unownedTouchEvent_undecided_def Let_def isWithin_takeSample takeSample_fields)



lemma isRejected_activeTouches:
  "isRejected d (map_option (\<lambda>w1. w1\<lparr>this := (this w1)\<lparr>activeTouches := f w1\<rparr>\<rparr>) result)
   = isRejected d result"
  by (cases result) (simp_all add: isRejected_def)

lemma isRejected_withdrawn:
  "isRejected d (Some (w\<lparr>registry := addTouchWatcher (touchId d) (item d)
                           (removeCandidateOwnerForTouch (touchId d) (item d) reg),
                        this := setStatus WaitingForTouch d'\<rparr>))"
  by (simp add: isRejected_def setStatus_fields withdraw_and_watch)

lemma update_in_undecided_wrong_direction:
  assumes "touchUpdateInUndecided w event tp"
    and "\<not> movingInRightDirection (takeSample tp (this w))"
  shows "isRejected (this w) (unownedTouchEvent now event w)"
proof -
  from assms(1) have u: "status (this w) = Undecided" "isEnabled (this w)" "isVisible (this w)"
      "\<not> testFlag event TouchPointPressed"
    and t: "fetchTargetTouchPoint event (this w) = Some tp" "tp_state tp \<noteq> TouchPointReleased"
    by (simp_all add: touchUpdateInUndecided_def)
  show ?thesis
    unfolding unownedTouchEvent_Undecided[OF u] isRejected_activeTouches
      undecided_wrong_direction[OF t assms(2)]
    by (rule isRejected_withdrawn)
qed

lemma update_in_undecided_past_max:
  assumes "touchUpdateInUndecided w event tp"
    and "isWithinTouchCompositionWindow now (this w) = Some False"
    and "\<not> movedFarEnoughAlongGestureAxis (takeSample tp (this w))"
    and "isPastMaxDistance (takeSample tp (this w))"
  shows "isRejected (this w) (unownedTouchEvent now event w)"
proof (cases "movingInRightDirection (takeSample tp (this w))")
  case False
  then show ?thesis by (rule update_in_undecided_wrong_direction[OF assms(1)])
next
  case True
  from assms(1) have u: "status (this w) = Undecided" "isEnabled (this w)" "isVisible (this w)"
      "\<not> testFlag event TouchPointPressed"
    and t: "fetchTargetTouchPoint event (this w) = Some tp" "tp_state tp \<noteq> TouchPointReleased"
    by (simp_all add: touchUpdateInUndecided_def)
  show ?thesis
    unfolding unownedTouchEvent_Undecided[OF u] isRejected_activeTouches
      undecided_past_max[OF t True assms(2,3,4)]
    by (rule isRejected_withdrawn)
qed

lemma rejectGesture_rejects:
  "status (this w) = Undecided \<Longrightarrow> isRejected (this w) (Some (rejectGesture w))"
  by (simp add: rejectGesture_def isRejected_def setStatus_fields withdraw_and_watch)

lemma watchPressedTouchPoints_fields:
  "candidates (watchPressedTouchPoints event r reg) = candidates reg"
  "owners (watchPressedTouchPoints event r reg) = owners reg"
  "pending (watchPressedTouchPoints event r reg) = pending reg"
  by (induction event r reg rule: watchPressedTouchPoints.induct)
     (simp_all add: addTouchWatcher_def)

lemma second_press_rejects:
  assumes "status (this w) = Undecided" "isEnabled (this w)" "isVisible (this w)"
    and "fetchTargetTouchPoint event (this w) = None"
    and "testFlag event TouchPointPressed"
    and "isWithinTouchCompositionWindow now (this w) = Some True"
  shows "isRejected (this w) (touchEvent now event w)"
proof -
  let ?reg = "watchPressedTouchPoints event (item (this w)) (registry w)"
  have "touchEvent_undecided now event w =
      Some (w\<lparr>accepted := False, registry := ?reg\<rparr>
             \<lparr>registry := addTouchWatcher (touchId (this w)) (item (this w))
                            (removeCandidateOwnerForTouch (touchId (this w)) (item (this w)) ?reg),
              this := setStatus WaitingForTouch (this w)\<rparr>)"
    using assms(4,5,6) by (simp add: touchEvent_undecided_def Let_def)
  then have "touchEvent now event w =
      map_option (\<lambda>w1. w1\<lparr>this := (this w1)\<lparr>activeTouches :=
                   ActiveTouchesInfo_update now event (activeTouches (this w1))\<rparr>\<rparr>)
       (Some (w\<lparr>accepted := False, registry := ?reg\<rparr>
             \<lparr>registry := addTouchWatcher (touchId (this w)) (item (this w))
                            (removeCandidateOwnerForTouch (touchId (this w)) (item (this w)) ?reg),
              this := setStatus WaitingForTouch (this w)\<rparr>))"
    using assms(1,2,3) by (simp add: touchEvent_def)
  then show ?thesis
    unfolding isRejected_activeTouches by (simp only: isRejected_activeTouches isRejected_withdrawn)
qed

subsection \<open>Evaluating the example states\<close>

lemmas example_defs =
  touchPointAt_def exampleGesture_def exampleStart_def examplePressed_def
  exampleFar_def exampleSideways_def exampleInconsistent_def exampleDeclined_def
  UCDragGesturePrivate_def setPixelsPerMm_def setDistanceThreshold_def setMaxDelta_def
  TouchRegistry_instance_def eval_nat_numeral

lemmas handler_defs =
  touchEvent_def touchEvent_absent_def touchEvent_undecided_def touchEvent_recognized_def
  unownedTouchEvent_def unownedTouchEvent_undecided_def rejectGesture_def
  testFlag_def isWithinTouchCompositionWindow_def Pool_isEmpty_def Pool_items_def
  List.map_filter_def sanityCheckRecognitionProperties_def recognitionIsDisabled_def
  DampedPointF_reset_def DampedPointF_update_def damp_def takeSample_def
  setPublicPos_def setPublicScenePos_def updateSceneDirectionVector_def
  updateSceneDistance_def projectOntoDirectionVector_def setStatus_def
  addCandidateOwnerForTouch_def removeCandidateOwnerForTouch_def addTouchWatcher_def
  ActiveTouchesInfo_update_def addTouchPoint_def removeTouchPoint_def
  mostRecentStartTime_def highestStartTime_def fetchTargetTouchPoint_def
  movingInRightDirection_def movedFarEnoughAlongGestureAxis_def isPastMaxDistance_def
  movementVector_def totalMovement_def isHorizontal_def isVertical_def distance_def Let_def

lemma example_press:
  "touchEvent 0 [touchPointAt 7 TouchPointPressed (0, 0)] exampleStart = Some examplePressed"
  by (simp add: example_defs handler_defs)


section \<open>Rejections in state Undecided\<close>



text \<open>
  Claim C2. Each rejection in state Undecided (movement in the wrong direction, going
  past the maximum distance, the timeout of the recognition timer, a second touch
  pressed within the composition window) leaves the recognizer in WaitingForTouch,
  withdrawn as a candidate for its touch at the broker, and registered as a watcher
  of that touch.
\<close>

theorem rejections_reset_and_watch:
  "(touchUpdateInUndecided w event touchPoint
      \<and> \<not> movingInRightDirection (takeSample touchPoint (this w))
      \<longrightarrow> isRejected (this w) (unownedTouchEvent now event w))
   \<and> (touchUpdateInUndecided w event touchPoint
      \<and> isWithinTouchCompositionWindow now (this w) = Some False
      \<and> \<not> movedFarEnoughAlongGestureAxis (takeSample touchPoint (this w))
      \<and> isPastMaxDistance (takeSample touchPoint (this w))
      \<longrightarrow> isRejected (this w) (unownedTouchEvent now event w))
   \<and> (status (this w) = Undecided \<longrightarrow> isRejected (this w) (Some (rejectGesture w)))
   \<and> (status (this w) = Undecided \<and> isEnabled (this w) \<and> isVisible (this w)
      \<and> fetchTargetTouchPoint event (this w) = None
      \<and> testFlag event TouchPointPressed
      \<and> isWithinTouchCompositionWindow now (this w) = Some True
      \<longrightarrow> isRejected (this w) (touchEvent now event w))"
proof (intro conjI impI)
  assume "touchUpdateInUndecided w event touchPoint
      \<and> \<not> movingInRightDirection (takeSample touchPoint (this w))"
  then show "isRejected (this w) (unownedTouchEvent now event w)"
    using update_in_undecided_wrong_direction by blast
next
  assume "touchUpdateInUndecided w event touchPoint
      \<and> isWithinTouchCompositionWindow now (this w) = Some False
      \<and> \<not> movedFarEnoughAlongGestureAxis (takeSample touchPoint (this w))
      \<and> isPastMaxDistance (takeSample touchPoint (this w))"
  then show "isRejected (this w) (unownedTouchEvent now event w)"
    using update_in_undecided_past_max by blast
next
  assume "status (this w) = Undecided"
  then show "isRejected (this w) (Some (rejectGesture w))" by (rule rejectGesture_rejects)
next
  assume "status (this w) = Undecided \<and> isEnabled (this w) \<and> isVisible (this w)
      \<and> fetchTargetTouchPoint event (this w) = None
      \<and> testFlag event TouchPointPressed
      \<and> isWithinTouchCompositionWindow now (this w) = Some True"
  then show "isRejected (this w) (touchEvent now event w)"
    using second_press_rejects by blast
qed

theorem rejections_reset_and_watch_witness:
  "isRejected (this examplePressed)
     (unownedTouchEvent 30 [touchPointAt 7 TouchPointMoved (-5, 0)] examplePressed)
   \<and> isRejected (this exampleSideways)
     (unownedTouchEvent 100 [touchPointAt 7 TouchPointMoved (0, 200)] exampleSideways)
   \<and> isRejected (this examplePressed) (Some (rejectGesture examplePressed))
   \<and> isRejected (this examplePressed)
     (touchEvent 30 [touchPointAt 8 TouchPointPressed (3, 3)] examplePressed)"
proof -
  let ?left = "touchPointAt 7 TouchPointMoved (-5, 0)"
  let ?down = "touchPointAt 7 TouchPointMoved (0, 200)"
  let ?second = "[touchPointAt 8 TouchPointPressed (3, 3)]"
  have a: "touchUpdateInUndecided examplePressed [?left] ?left
      \<and> \<not> movingInRightDirection (takeSample ?left (this examplePressed))"
    by (simp add: touchUpdateInUndecided_def example_defs handler_defs)
  have b: "touchUpdateInUndecided exampleSideways [?down] ?down
      \<and> isWithinTouchCompositionWindow 100 (this exampleSideways) = Some False
      \<and> \<not> movedFarEnoughAlongGestureAxis (takeSample ?down (this exampleSideways))
      \<and> isPastMaxDistance (takeSample ?down (this exampleSideways))"
    by (simp add: touchUpdateInUndecided_def example_defs handler_defs)
  have c: "status (this examplePressed) = Undecided"
    by (simp add: example_defs)
  have d: "status (this examplePressed) = Undecided \<and> isEnabled (this examplePressed)
      \<and> isVisible (this examplePressed)
      \<and> fetchTargetTouchPoint ?second (this examplePressed) = None
      \<and> testFlag ?second TouchPointPressed
      \<and> isWithinTouchCompositionWindow 30 (this examplePressed) = Some True"
    by (simp add: example_defs handler_defs)
  show ?thesis
    using rejections_reset_and_watch[of examplePressed "[?left]" ?left 30]
      rejections_reset_and_watch[of exampleSideways "[?down]" ?down 100]
      rejections_reset_and_watch[of examplePressed ?second _ 30]
      a b c d by blast
qed

section \<open>Recognition and the maximum distance\<close>




lemma squared_distance_exceeds:
  fixes m a b :: real
  assumes "0 \<le> m" and "sqrt (a * a + b * b) > m"
  shows "a * a + b * b > m * m"
proof -
  have nn: "0 \<le> a * a + b * b" by simp
  from assms have "m ^ 2 < (sqrt (a * a + b * b)) ^ 2"
    by (intro power_strict_mono) simp_all
  also have "\<dots> = a * a + b * b" using nn by simp
  finally show ?thesis by (simp add: power2_eq_square)
qed

text \<open>
  Claim C5, as amended. In state Undecided, for an update of the watched touch that is
  not a release, once the composition window has elapsed: if the Euclidean distance
  (not projected) of the damped touch position from the start position exceeds
  \<open>maxDistance\<close> and the recognition threshold has not been crossed, the gesture is
  rejected to WaitingForTouch.
\<close>

theorem past_max_distance_rejected:
  assumes "touchUpdateInUndecided w event touchPoint"
    and "isWithinTouchCompositionWindow now (this w) = Some False"
    and "0 \<le> maxDistance (this w)"
    and "sqrt (fst (totalMovement (takeSample touchPoint (this w)))
                 * fst (totalMovement (takeSample touchPoint (this w)))
               + snd (totalMovement (takeSample touchPoint (this w)))
                 * snd (totalMovement (takeSample touchPoint (this w))))
           > maxDistance (this w)"
    and "\<not> movedFarEnoughAlongGestureAxis (takeSample touchPoint (this w))"
  shows "isRejected (this w) (unownedTouchEvent now event w)"
proof -
  have "isPastMaxDistance (takeSample touchPoint (this w))"
    unfolding isPastMaxDistance_def Let_def takeSample_fields
    by (rule squared_distance_exceeds[OF assms(3,4)])
  with assms(1,2,5) show ?thesis by (intro update_in_undecided_past_max)
qed

theorem past_max_distance_rejected_witness:
  "isRejected (this exampleSideways)
     (unownedTouchEvent 100 [touchPointAt 7 TouchPointMoved (0, 200)] exampleSideways)"
proof -
  let ?tp = "touchPointAt 7 TouchPointMoved (0, 200)"
  let ?tm = "totalMovement (takeSample ?tp (this exampleSideways))"
  have a: "touchUpdateInUndecided exampleSideways [?tp] ?tp"
    by (simp add: touchUpdateInUndecided_def example_defs handler_defs)
  have b: "isWithinTouchCompositionWindow 100 (this exampleSideways) = Some False"
    by (simp add: example_defs handler_defs)
  have c: "0 \<le> maxDistance (this exampleSideways)"
    by (simp add: example_defs)
  have tm: "?tm = (0, 105)" and m: "maxDistance (this exampleSideways) = 100"
    by (simp_all add: example_defs handler_defs)
  have "(100::real) < sqrt (0 * 0 + 105 * 105)"
    by (rule real_less_rsqrt) simp
  then have d: "sqrt (fst ?tm * fst ?tm + snd ?tm * snd ?tm) > maxDistance (this exampleSideways)"
    unfolding tm m by simp
  have e: "\<not> movedFarEnoughAlongGestureAxis (takeSample ?tp (this exampleSideways))"
    by (simp add: example_defs handler_defs)
  show ?thesis by (rule past_max_distance_rejected[OF a b c d e])
qed

text \<open>
  The claim as stated has no condition on the composition window. Within the window
  the check is not reached: 55 ms after the press, at distance 105 from the start,
  beyond the maximum distance 100 and with the threshold not crossed, the recognizer
  stays Undecided.
\<close>

theorem past_max_distance_in_window_counterexample:
  "touchEvent 0 [touchPointAt 7 TouchPointPressed (0, 0)] exampleStart = Some examplePressed
   \<and> unownedTouchEvents
        [(5, [touchPointAt 7 TouchPointMoved (0, 10)]),
         (10, [touchPointAt 7 TouchPointMoved (0, 20)]),
         (15, [touchPointAt 7 TouchPointMoved (0, 30)]),
         (20, [touchPointAt 7 TouchPointMoved (0, 40)]),
         (25, [touchPointAt 7 TouchPointMoved (0, 50)]),
         (30, [touchPointAt 7 TouchPointMoved (0, 60)]),
         (35, [touchPointAt 7 TouchPointMoved (0, 70)]),
         (40, [touchPointAt 7 TouchPointMoved (0, 80)]),
         (45, [touchPointAt 7 TouchPointMoved (0, 85)]),
         (50, [touchPointAt 7 TouchPointMoved (0, 95)])] examplePressed = Some exampleSideways
   \<and> status (this exampleSideways) = Undecided
   \<and> maxDistance (this exampleSideways) = 100
   \<and> totalMovement (takeSample (touchPointAt 7 TouchPointMoved (0, 200)) (this exampleSideways))
       = (0, 105)
   \<and> \<not> movedFarEnoughAlongGestureAxis
          (takeSample (touchPointAt 7 TouchPointMoved (0, 200)) (this exampleSideways))
   \<and> resultStatus (unownedTouchEvent 55 [touchPointAt 7 TouchPointMoved (0, 200)] exampleSideways)
       = Some Undecided"
  by (simp add: example_defs handler_defs resultStatus_def)

section \<open>The composition window\<close>

lemma isWithin_eq:
  "isWithinTouchCompositionWindow now d =
     Some (compositionTime d > 0 \<and> \<not> Pool_isEmpty (activeTouches d)
           \<and> (\<exists>t. mostRecentStartTime (activeTouches d) = Some t \<and> now \<le> t + compositionTime d))"
  by (cases "compositionTime d > 0 \<and> \<not> Pool_isEmpty (activeTouches d)")
     (auto simp: isWithinTouchCompositionWindow_def mostRecentStartTime_def)

lemma undecided_in_window_not_recognized:
  assumes "status (this w) = Undecided"
    and "isWithinTouchCompositionWindow now (this w) = Some True"
    and "unownedTouchEvent_undecided now event w = Some w'"
  shows "status (this w') \<noteq> Recognized"
proof (cases "fetchTargetTouchPoint event (this w)")
  case None
  with assms(3) show ?thesis
    by (auto simp: unownedTouchEvent_undecided_def setStatus_fields)
next
  case (Some tp)
  show ?thesis
  proof (cases "tp_state tp = TouchPointReleased")
    case True
    with Some assms(3) show ?thesis
      by (auto simp: unownedTouchEvent_undecided_def setStatus_fields)
  next
    case rel: False
    show ?thesis
    proof (cases "movingInRightDirection (takeSample tp (this w))")
      case False
      from undecided_wrong_direction[OF Some rel False, of now] assms(3)
      show ?thesis by (auto simp: setStatus_fields)
    next
      case True
      from undecided_in_window[OF Some rel True assms(2)] assms(3) assms(1)
      show ?thesis by (auto simp: takeSample_fields)
    qed
  qed
qed

text \<open>
  Claim C6, as amended. In state Undecided the evaluation of the threshold and of the
  maximum distance proceeds only once the composition window has elapsed: the window
  is open exactly when \<open>compositionTime > 0\<close>, the registry of active touches is not
  empty, and the current time is at most the most recent start time plus
  \<open>compositionTime\<close>. While it is open, an update of the watched touch that is not a
  release and passes the direction check leaves the state Undecided and the broker
  untouched; and no unowned touch event takes the recognizer from Undecided to
  Recognized.
\<close>

theorem composition_window_defers:
  "isWithinTouchCompositionWindow now d =
     Some (compositionTime d > 0 \<and> \<not> Pool_isEmpty (activeTouches d)
           \<and> (\<exists>t. mostRecentStartTime (activeTouches d) = Some t \<and> now \<le> t + compositionTime d))
   \<and> (touchUpdateInUndecided w event touchPoint
        \<and> isWithinTouchCompositionWindow now (this w) = Some True
        \<and> movingInRightDirection (takeSample touchPoint (this w))
      \<longrightarrow> (\<exists>w'. unownedTouchEvent now event w = Some w'
                \<and> status (this w') = Undecided \<and> registry w' = registry w))
   \<and> (status (this w) = Undecided
        \<and> resultStatus (unownedTouchEvent now event w) = Some Recognized
      \<longrightarrow> isWithinTouchCompositionWindow now (this w) = Some False)"
proof (intro conjI impI)
  show "isWithinTouchCompositionWindow now d =
     Some (compositionTime d > 0 \<and> \<not> Pool_isEmpty (activeTouches d)
           \<and> (\<exists>t. mostRecentStartTime (activeTouches d) = Some t \<and> now \<le> t + compositionTime d))"
    by (rule isWithin_eq)
next
  assume a: "touchUpdateInUndecided w event touchPoint
        \<and> isWithinTouchCompositionWindow now (this w) = Some True
        \<and> movingInRightDirection (takeSample touchPoint (this w))"
  then have u: "status (this w) = Undecided" "isEnabled (this w)" "isVisible (this w)"
      "\<not> testFlag event TouchPointPressed"
    and t: "fetchTargetTouchPoint event (this w) = Some touchPoint"
      "tp_state touchPoint \<noteq> TouchPointReleased"
    by (simp_all add: touchUpdateInUndecided_def)
  from a have m: "movingInRightDirection (takeSample touchPoint (this w))"
    and i: "isWithinTouchCompositionWindow now (this w) = Some True" by simp_all
  show "\<exists>w'. unownedTouchEvent now event w = Some w'
                \<and> status (this w') = Undecided \<and> registry w' = registry w"
    unfolding unownedTouchEvent_Undecided[OF u] undecided_in_window[OF t m i]
    by (simp add: takeSample_fields u)
next
  assume a: "status (this w) = Undecided
        \<and> resultStatus (unownedTouchEvent now event w) = Some Recognized"
  then have u: "status (this w) = Undecided" by simp
  from a obtain w' where r: "unownedTouchEvent now event w = Some w'"
    and s: "status (this w') = Recognized"
    by (auto simp: resultStatus_def)
  from r u obtain w1 where w1: "unownedTouchEvent_undecided now event w = Some w1"
    and w': "w' = w1\<lparr>this := (this w1)\<lparr>activeTouches :=
                   ActiveTouchesInfo_update now event (activeTouches (this w1))\<rparr>\<rparr>"
    by (auto simp: unownedTouchEvent_def split: if_splits Option.bind_splits)
  from s w' have s1: "status (this w1) = Recognized" by simp
  obtain b where b: "isWithinTouchCompositionWindow now (this w) = Some b"
    using isWithinTouchCompositionWindow_defined[of now "this w"] by auto
  show "isWithinTouchCompositionWindow now (this w) = Some False"
  proof (cases b)
    case True
    with b undecided_in_window_not_recognized[OF u _ w1] s1 show ?thesis by simp
  next
    case False
    with b show ?thesis by simp
  qed
qed

theorem composition_window_defers_witness:
  "resultStatus (unownedTouchEvent 30 [touchPointAt 7 TouchPointMoved (200, 0)] examplePressed)
     = Some Undecided
   \<and> resultStatus (unownedTouchEvent 100 [touchPointAt 7 TouchPointMoved (65, 0)] exampleFar)
     = Some Recognized
   \<and> isWithinTouchCompositionWindow 100 (this exampleFar) = Some False"
proof -
  let ?tp = "touchPointAt 7 TouchPointMoved (200, 0)"
  let ?tq = "touchPointAt 7 TouchPointMoved (65, 0)"
  have a: "touchUpdateInUndecided examplePressed [?tp] ?tp
        \<and> isWithinTouchCompositionWindow 30 (this examplePressed) = Some True
        \<and> movingInRightDirection (takeSample ?tp (this examplePressed))"
    by (simp add: touchUpdateInUndecided_def example_defs handler_defs)
  have b: "status (this exampleFar) = Undecided
        \<and> resultStatus (unownedTouchEvent 100 [?tq] exampleFar) = Some Recognized"
    by (simp add: example_defs handler_defs resultStatus_def requestTouchOwnership_call_def
        requestTouchOwnership_def ownerOf_def ownershipLosers_def touchOwnershipEvent_def)
  have 1: "\<exists>w'. unownedTouchEvent 30 [?tp] examplePressed = Some w'
              \<and> status (this w') = Undecided \<and> registry w' = registry examplePressed"
    using composition_window_defers[where now = 30 and w = examplePressed and event = "[?tp]"
        and touchPoint = ?tp] a by blast
  have 2: "isWithinTouchCompositionWindow 100 (this exampleFar) = Some False"
    using composition_window_defers[where now = 100 and w = exampleFar and event = "[?tq]"] b
    by blast
  show ?thesis using 1 2 b by (auto simp: resultStatus_def)
qed

text \<open>
  The claim as stated lets every update within the window leave the state Undecided.
  The release and direction checks come before the window check: 30 ms after the
  press, within the window of 60 ms, a sample that moves against the direction is
  rejected, and a release ends the gesture.
\<close>

theorem in_window_wrong_direction_counterexample:
  "touchEvent 0 [touchPointAt 7 TouchPointPressed (0, 0)] exampleStart = Some examplePressed
   \<and> status (this examplePressed) = Undecided
   \<and> isWithinTouchCompositionWindow 30 (this examplePressed) = Some True
   \<and> resultStatus (unownedTouchEvent 30 [touchPointAt 7 TouchPointMoved (-5, 0)] examplePressed)
       = Some WaitingForTouch
   \<and> resultStatus (unownedTouchEvent 30 [touchPointAt 7 TouchPointReleased (0, 0)] examplePressed)
       = Some WaitingForTouch"
  by (simp add: example_defs handler_defs resultStatus_def)

section \<open>Inconsistent configuration\<close>

lemma findNewTouchPoint_allGood:
  "snd (findNewTouchPoint event (acc, good)) =
     (good \<and> length (filter (\<lambda>touchPoint. tp_state touchPoint = TouchPointPressed) event)
               + (if acc = None then 0 else 1) \<le> 1)"
proof (induction event arbitrary: acc good)
  case Nil
  show ?case by (cases acc) simp_all
next
  case (Cons touchPoint rest)
  show ?case
    by (cases acc; cases good; cases "tp_state touchPoint = TouchPointPressed")
       (simp_all add: Cons.IH)
qed

lemma absent_declines:
  assumes "testFlag event TouchPointPressed"
    and "\<not> sanityCheckRecognitionProperties (this w)"
    and "isWithinTouchCompositionWindow now (this w) = Some b"
  shows "touchEvent_absent now event w =
     Some (w\<lparr>this := (if snd (findNewTouchPoint event (None, \<not> b))
                       then (this w)\<lparr>diagnostics := diagnostics (this w)
                                        @ [Warning_recognitionPropertiesWronglySet]\<rparr>
                       else this w),
             registry := watchPressedTouchPoints event (item (this w)) (registry w),
             accepted := False\<rparr>)"
  using assms by (simp add: touchEvent_absent_def Let_def split: prod.split)

text \<open>
  Claim C7, as amended. When a press arrives in state WaitingForTouch (at an enabled,
  visible item) with an inconsistent recognition configuration, the recognizer does not
  start a gesture for it: the state stays WaitingForTouch, the event is ignored and so
  passes through, and nothing changes in the candidates and owners of the broker. The
  diagnostic is written when the press was otherwise acceptable: outside the
  composition window and the only press of the event.
\<close>

theorem inconsistent_configuration_declines:
  assumes "status (this w) = WaitingForTouch" "isEnabled (this w)" "isVisible (this w)"
    and "testFlag event TouchPointPressed"
    and "\<not> sanityCheckRecognitionProperties (this w)"
  shows "\<exists>w'. touchEvent now event w = Some w'
           \<and> status (this w') = WaitingForTouch
           \<and> \<not> accepted w'
           \<and> candidates (registry w') = candidates (registry w)
           \<and> owners (registry w') = owners (registry w)
           \<and> diagnostics (this w') =
               (if isWithinTouchCompositionWindow now (this w) = Some False
                   \<and> length (filter (\<lambda>touchPoint. tp_state touchPoint = TouchPointPressed) event) = 1
                then diagnostics (this w) @ [Warning_recognitionPropertiesWronglySet]
                else diagnostics (this w))"
proof -
  obtain b where b: "isWithinTouchCompositionWindow now (this w) = Some b"
    using isWithinTouchCompositionWindow_defined[of now "this w"] by auto
  from assms(4) obtain p where "p \<in> set event" "tp_state p = TouchPointPressed"
    by (auto simp: testFlag_def)
  then have "filter (\<lambda>touchPoint. tp_state touchPoint = TouchPointPressed) event \<noteq> []"
    by (auto simp: filter_empty_conv)
  then have pos: "length (filter (\<lambda>touchPoint. tp_state touchPoint = TouchPointPressed) event) \<ge> 1"
    by (simp add: Suc_le_eq)
  have goodT: "snd (findNewTouchPoint event (None, True)) =
      (length (filter (\<lambda>touchPoint. tp_state touchPoint = TouchPointPressed) event) = 1)"
    using pos by (auto simp: findNewTouchPoint_allGood)
  have goodF: "\<not> snd (findNewTouchPoint event (None, False))"
    by (simp add: findNewTouchPoint_allGood)
  show ?thesis
  proof (cases b)
    case True
    with b have bT: "isWithinTouchCompositionWindow now (this w) = Some True" by simp
    show ?thesis
      using assms(1,2,3) goodF
      by (simp add: touchEvent_def absent_declines[OF assms(4,5) bT] bT
          watchPressedTouchPoints_fields)
  next
    case False
    with b have bF: "isWithinTouchCompositionWindow now (this w) = Some False" by simp
    show ?thesis
      using assms(1,2,3)
      by (simp add: touchEvent_def absent_declines[OF assms(4,5) bF] bF goodT
          watchPressedTouchPoints_fields)
  qed
qed

theorem inconsistent_configuration_declines_witness:
  "touchEvent 0 [touchPointAt 7 TouchPointPressed (0, 0)] exampleInconsistent = Some exampleDeclined
   \<and> status (this exampleDeclined) = WaitingForTouch
   \<and> diagnostics (this exampleDeclined) = [Warning_recognitionPropertiesWronglySet]
   \<and> candidates (registry exampleDeclined) = []"
proof -
  let ?ev = "[touchPointAt 7 TouchPointPressed (0, 0)]"
  have h: "status (this exampleInconsistent) = WaitingForTouch"
      "isEnabled (this exampleInconsistent)" "isVisible (this exampleInconsistent)"
      "testFlag ?ev TouchPointPressed"
      "\<not> sanityCheckRecognitionProperties (this exampleInconsistent)"
    by (simp_all add: example_defs handler_defs)
  have r: "touchEvent 0 ?ev exampleInconsistent = Some exampleDeclined"
    by (simp add: example_defs handler_defs)
  from inconsistent_configuration_declines[OF h, of 0] r
  have "status (this exampleDeclined) = WaitingForTouch
      \<and> candidates (registry exampleDeclined) = candidates (registry exampleInconsistent)"
    by auto
  then show ?thesis using r by (simp add: example_defs)
qed

text \<open>
  The claim as stated has a diagnostic for every such press. The configuration is
  checked only after the window and the number of presses: a second touch pressed
  30 ms after the first one (window 60 ms) is declined with no further diagnostic.
\<close>

theorem inconsistent_configuration_no_diagnostic_counterexample:
  "touchEvent 0 [touchPointAt 7 TouchPointPressed (0, 0)] exampleInconsistent = Some exampleDeclined
   \<and> status (this exampleDeclined) = WaitingForTouch
   \<and> \<not> sanityCheckRecognitionProperties (this exampleDeclined)
   \<and> \<not> recognitionIsDisabled (this exampleDeclined)
   \<and> testFlag [touchPointAt 7 TouchPointStationary (0, 0), touchPointAt 8 TouchPointPressed (5, 5)]
        TouchPointPressed
   \<and> resultDiagnostics
        (touchEvent 30 [touchPointAt 7 TouchPointStationary (0, 0),
                        touchPointAt 8 TouchPointPressed (5, 5)] exampleDeclined)
       = Some (diagnostics (this exampleDeclined))"
  by (simp add: example_defs handler_defs resultDiagnostics_def)

section \<open>The effect of the handlers on the ownership state\<close>















section \<open>Single ownership\<close>



















end
